theory Spec2Isabelle
  imports Main
begin

section \<open>Data model\<close>

text \<open>
  The dispatcher of \<^verbatim>\<open>fast_client.go\<close> (\<^verbatim>\<open>executeRequest\<close>, \<^verbatim>\<open>sendRequest\<close>,
  \<^verbatim>\<open>handleStatusCode\<close>, \<^verbatim>\<open>handleResponse\<close>) and the poller
  (\<^verbatim>\<open>WaitForPendingUpdate\<close>) are embedded as functions over an explicit world.
  A Go byte slice and a Go string are both a \<open>string\<close>; the nil slice is the empty one
  where only its content is read. A nilable Go value (interface, map, slice that the
  code compares with \<^verbatim>\<open>nil\<close>, pointer) is an \<open>option\<close>, \<open>None\<close> being \<^verbatim>\<open>nil\<close>.
  The calls of \<^verbatim>\<open>log.Printf\<close> write to the log only and are left out.
\<close>

type_synonym bytes = string

text \<open>An error value made by a collaborator (net/url, a JSON method, the HTTP client).\<close>

datatype lib_error = LibError string

text \<open>The two errors a \<^verbatim>\<open>context.Context\<close> reports.\<close>

datatype ctx_error = Canceled | DeadlineExceeded

text \<open>
  Modelled from the spec: the declaration of \<^verbatim>\<open>ErrCode\<close> is not among the sources; these
  are the error kinds the dispatcher names, with the zero value first.
\<close>

datatype ErrCode =
  ErrCodeUnknown
  | ErrCodeMarshalRequest
  | ErrCodeRequestExecution
  | ErrCodeResponseStatusCode
  | ErrCodeResponseUnmarshalBody

text \<open>
  The struct \<^verbatim>\<open>Error\<close>: the fields are those \<^verbatim>\<open>executeRequest\<close> fills in, together with
  the kind and the wrapped cause that the spec gives a Structured Error.
\<close>

record Error =
  Endpoint :: string
  Method :: string
  Function :: string
  APIName :: string
  RequestToString :: string
  ResponseToString :: string
  MeilisearchMessage :: string
  StatusCode :: int
  StatusCodeExpected :: "int list option"
  ErrCode :: ErrCode
  OriginError :: "lib_error option"

text \<open>
  A Go \<^verbatim>\<open>error\<close> as the dispatcher and the poller return it: the result of
  \<^verbatim>\<open>errors.Wrap(err, msg)\<close>, a pointer to an \<^verbatim>\<open>Error\<close>, or the error of a context.
\<close>

datatype go_error =
  Wrap lib_error string
  | Structured Error
  | ContextErr ctx_error

record Config =
  Host :: string
  APIKey :: string

record URL =
  Scheme :: string
  Authority :: string
  Path :: string
  RawQuery :: string
  Fragment :: string

text \<open>\<^verbatim>\<open>url.Values\<close> is \<^verbatim>\<open>map[string][]string\<close>.\<close>

type_synonym Values = "string \<rightharpoonup> string list"

text \<open>A \<^verbatim>\<open>json.Marshaler\<close>, given by what its method \<^verbatim>\<open>MarshalJSON()\<close> returns.\<close>

datatype Marshaler = Marshaler (MarshalJSON: "bytes \<times> lib_error option")

text \<open>
  A \<^verbatim>\<open>json.Unmarshaler\<close> is a pointer to the response target; its method
  \<^verbatim>\<open>UnmarshalJSON(data)\<close> takes the target's content to the new content and an error.
\<close>

type_synonym 't Unmarshaler = "bytes \<Rightarrow> 't \<Rightarrow> lib_error option \<times> 't"

text \<open>
  \<^verbatim>\<open>(*RawType).UnmarshalJSON\<close> (the file of the types, lines 201 to 204): the target
  becomes the data, and no error is returned.
\<close>

definition RawType_UnmarshalJSON :: "bytes Unmarshaler" where
  "RawType_UnmarshalJSON data b = (None, data)"

text \<open>
  \<^verbatim>\<open>withQueryParams\<close> is a Go map: its entries are listed in the order the \<^verbatim>\<open>range\<close>
  loop visits them (any order), with pairwise distinct keys. The field \<^verbatim>\<open>method\<close> of the
  source is \<open>method'\<close> here.
\<close>

record 't internalRawRequest =
  endpoint :: string
  method' :: string
  withRequest :: "Marshaler option"
  withResponse :: "'t Unmarshaler option"
  withQueryParams :: "(string \<times> string) list option"
  acceptedStatusCodes :: "int list option"
  functionName :: string
  apiName :: string

record Request =
  RequestURI :: string
  HeaderMethod :: string
  Header :: "string \<rightharpoonup> string"
  Body :: bytes

record Response =
  RespStatusCode :: int
  RespBody :: bytes

text \<open>
  The world a call runs in: the clock (in nanoseconds), the state behind the transport,
  the requests handed to \<^verbatim>\<open>httpClient.Do\<close> (latest first), the content of the response
  target, and the bodies handed to the target's \<^verbatim>\<open>UnmarshalJSON\<close> (latest first).
\<close>

record ('n, 't) world =
  now :: nat
  net :: 'n
  sent :: "Request list"
  target :: 't
  decoded :: "bytes list"

text \<open>
  The client: its configuration and \<^verbatim>\<open>httpClient.Do\<close>, which from a request, the time
  and the state behind the transport gives an error or a response, the duration of the
  round trip and the next state.
\<close>

record 'n FastHttpClient =
  config :: Config
  httpClient :: "Request \<Rightarrow> nat \<Rightarrow> 'n \<Rightarrow> (lib_error + Response) \<times> nat \<times> 'n"

type_synonym UpdateStatus = string

definition UpdateStatusUnknown :: UpdateStatus where
  "UpdateStatusUnknown = ''unknown''"

definition UpdateStatusEnqueued :: UpdateStatus where
  "UpdateStatusEnqueued = ''enqueued''"

definition UpdateStatusProcessed :: UpdateStatus where
  "UpdateStatusProcessed = ''processed''"

definition UpdateStatusFailed :: UpdateStatus where
  "UpdateStatusFailed = ''failed''"

record Update =
  Status :: UpdateStatus
  UpdateID :: int
  Type :: "(string \<times> bytes) list"
  Error :: string
  EnqueuedAt :: string
  ProcessedAt :: string

text \<open>The one field of \<^verbatim>\<open>AsyncUpdateID\<close>, \<^verbatim>\<open>UpdateID\<close> in the source, is \<open>AsyncID\<close> here.\<close>

record AsyncUpdateID =
  AsyncID :: int

text \<open>
  The functions of the libraries and of files that are not among the sources, taken as
  parameters: \<^verbatim>\<open>url.Parse\<close>, \<^verbatim>\<open>URL.Query\<close>, \<^verbatim>\<open>Values.Encode\<close>, \<^verbatim>\<open>URL.String\<close>; what a
  response reads as once \<^verbatim>\<open>fasthttp.ReleaseResponse\<close> has put it back into the pool; the
  message that \<^verbatim>\<open>ErrorBody\<close> finds in a body, if any; and \<^verbatim>\<open>(*Update).UnmarshalJSON\<close>.
  The release is part of the model because \<^verbatim>\<open>sendRequest\<close> defers it (line 144) and then
  returns the response (line 177): \<^verbatim>\<open>executeRequest\<close> reads the status code and the body
  of a response that has been released.
\<close>

record deps =
  url_Parse :: "string \<Rightarrow> lib_error + URL"
  URL_Query :: "URL \<Rightarrow> Values"
  Values_Encode :: "Values \<Rightarrow> string"
  URL_String :: "URL \<Rightarrow> string"
  ReleaseResponse :: "Response \<Rightarrow> Response"
  apiMessage :: "bytes \<Rightarrow> string option"
  Update_UnmarshalJSON :: "Update Unmarshaler"

section \<open>The structured error\<close>

text \<open>
  Modelled from the spec: \<^verbatim>\<open>WithErrCode\<close> is not among the sources. It tags the error with
  its kind and, when a cause is given, wraps the cause.
\<close>

definition WithErrCode :: "Error \<Rightarrow> ErrCode \<Rightarrow> lib_error option \<Rightarrow> Error" where
  "WithErrCode e code errs =
     (case errs of
        None \<Rightarrow> e\<lparr>ErrCode := code\<rparr>
      | Some err \<Rightarrow> e\<lparr>OriginError := Some err, ErrCode := code\<rparr>)"

text \<open>
  Modelled from the spec: \<^verbatim>\<open>ErrorBody\<close> is not among the sources. It keeps the raw body as
  the response text and takes the server's message from the body when there is one.
\<close>

definition ErrorBody :: "deps \<Rightarrow> Error \<Rightarrow> bytes \<Rightarrow> Error" where
  "ErrorBody L e rawBody =
     (case apiMessage L rawBody of
        None \<Rightarrow> e\<lparr>ResponseToString := rawBody\<rparr>
      | Some msg \<Rightarrow> e\<lparr>ResponseToString := rawBody, MeilisearchMessage := msg\<rparr>)"

text \<open>The \<^verbatim>\<open>internalError\<close> that \<^verbatim>\<open>executeRequest\<close> allocates (lines 84 to 93).\<close>

definition internalError_of :: "'t internalRawRequest \<Rightarrow> Error" where
  "internalError_of req =
     \<lparr>Endpoint = endpoint req,
      Method = method' req,
      Function = functionName req,
      APIName = apiName req,
      RequestToString = ''empty request'',
      ResponseToString = ''empty response'',
      MeilisearchMessage = ''empty meilisearch message'',
      StatusCode = 0,
      StatusCodeExpected = acceptedStatusCodes req,
      ErrCode = ErrCodeUnknown,
      OriginError = None\<rparr>"

section \<open>sendRequest\<close>

text \<open>\<^verbatim>\<open>Values.Set(key, value)\<close> replaces whatever the key had by the one value.\<close>

definition Values_Set :: "string \<Rightarrow> string \<Rightarrow> Values \<Rightarrow> Values" where
  "Values_Set key val query = query(key \<mapsto> [val])"

text \<open>The loop of lines 134 to 136 over the entries of \<^verbatim>\<open>withQueryParams\<close>.\<close>

fun setQueryParams :: "(string \<times> string) list \<Rightarrow> Values \<Rightarrow> Values" where
  "setQueryParams [] query = query"
| "setQueryParams ((key, val) # rest) query = setQueryParams rest (Values_Set key val query)"

text \<open>Lines 125 to 139: the URL is parsed, then the query parameters are put in.\<close>

definition requestURL_of :: "deps \<Rightarrow> Config \<Rightarrow> 't internalRawRequest \<Rightarrow> lib_error + URL" where
  "requestURL_of L cfg req =
     (case url_Parse L (Host cfg @ endpoint req) of
        Inl err \<Rightarrow> Inl err
      | Inr requestURL \<Rightarrow>
          (case withQueryParams req of
             None \<Rightarrow> Inr requestURL
           | Some params \<Rightarrow>
               Inr (requestURL\<lparr>RawQuery :=
                      Values_Encode L (setQueryParams params (URL_Query L requestURL))\<rparr>)))"

text \<open>Lines 163 to 167: the headers of the outgoing request.\<close>

definition setHeaders :: "Config \<Rightarrow> Request \<Rightarrow> Request" where
  "setHeaders cfg request =
     (let request1 = request\<lparr>Header := (Header request)(''Content-Type'' \<mapsto> ''application/json'')\<rparr>
      in if APIKey cfg \<noteq> ''''
         then request1\<lparr>Header := (Header request1)(''X-Meili-API-Key'' \<mapsto> APIKey cfg)\<rparr>
         else request1)"

text \<open>
  Lines 163 to 177: the headers are set, the request is sent, and the response comes
  back to the caller after the deferred release.
\<close>

definition doRequest ::
  "deps \<Rightarrow> 'n FastHttpClient \<Rightarrow> Request \<Rightarrow> Error \<Rightarrow> ('n, 't) world
     \<Rightarrow> (go_error + Response) \<times> Error \<times> ('n, 't) world" where
  "doRequest L c request0 internalError w =
     (let request = setHeaders (config c) request0
      in case httpClient c request (now w) (net w) of
           (result, roundTrip, net') \<Rightarrow>
             (let w' = w\<lparr>now := now w + roundTrip, net := net', sent := request # sent w\<rparr>
              in case result of
                   Inl err \<Rightarrow>
                     (Inl (Structured (WithErrCode internalError ErrCodeRequestExecution (Some err))),
                      WithErrCode internalError ErrCodeRequestExecution (Some err), w')
                 | Inr response \<Rightarrow> (Inr (ReleaseResponse L response), internalError, w')))"

text \<open>
  \<^verbatim>\<open>sendRequest\<close>: the result, the \<^verbatim>\<open>internalError\<close> as the call leaves it, and the world.
  The request acquired from the pool is a fresh one.
\<close>

definition sendRequest ::
  "deps \<Rightarrow> 'n FastHttpClient \<Rightarrow> 't internalRawRequest \<Rightarrow> Error \<Rightarrow> ('n, 't) world
     \<Rightarrow> (go_error + Response) \<times> Error \<times> ('n, 't) world" where
  "sendRequest L c req internalError w =
     (case requestURL_of L (config c) req of
        Inl err \<Rightarrow> (Inl (Wrap err ''unable to parse url''), internalError, w)
      | Inr requestURL \<Rightarrow>
          (let request = \<lparr>RequestURI = URL_String L requestURL, HeaderMethod = method' req,
                          Header = Map.empty, Body = ''''\<rparr>
           in case withRequest req of
                None \<Rightarrow> doRequest L c request internalError w
              | Some rawJSONRequest \<Rightarrow>
                  (case MarshalJSON rawJSONRequest of
                     (data, err) \<Rightarrow>
                       (let internalError1 = internalError\<lparr>RequestToString := data\<rparr>
                        in case err of
                             Some e \<Rightarrow>
                               (Inl (Structured (WithErrCode internalError1 ErrCodeMarshalRequest (Some e))),
                                WithErrCode internalError1 ErrCodeMarshalRequest (Some e), w)
                           | None \<Rightarrow> doRequest L c (request\<lparr>Body := data\<rparr>) internalError1 w))))"

section \<open>handleStatusCode and handleResponse\<close>

text \<open>The loop of lines 185 to 189: does the status code equal one of the accepted ones?\<close>

fun codeAccepted :: "int \<Rightarrow> int list \<Rightarrow> bool" where
  "codeAccepted code [] = False"
| "codeAccepted code (acceptedCode # rest) =
     (if code = acceptedCode then True else codeAccepted code rest)"

definition handleStatusCode ::
  "deps \<Rightarrow> 't internalRawRequest \<Rightarrow> Response \<Rightarrow> Error \<Rightarrow> go_error option \<times> Error" where
  "handleStatusCode L req response internalError =
     (case acceptedStatusCodes req of
        None \<Rightarrow> (None, internalError)
      | Some codes \<Rightarrow>
          if codeAccepted (RespStatusCode response) codes then (None, internalError)
          else (let internalError1 = ErrorBody L internalError (RespBody response)
                in (Some (Structured (WithErrCode internalError1 ErrCodeResponseStatusCode None)),
                    WithErrCode internalError1 ErrCodeResponseStatusCode None)))"

definition handleResponse ::
  "'t internalRawRequest \<Rightarrow> Response \<Rightarrow> Error \<Rightarrow> ('n, 't) world
     \<Rightarrow> go_error option \<times> ('n, 't) world" where
  "handleResponse req response internalError w =
     (case withResponse req of
        None \<Rightarrow> (None, w)
      | Some unmarshal \<Rightarrow>
          (let rawBody = RespBody response;
               internalError1 = internalError\<lparr>ResponseToString := rawBody\<rparr>
           in case unmarshal rawBody (target w) of
                (err, target') \<Rightarrow>
                  (let w' = w\<lparr>target := target', decoded := rawBody # decoded w\<rparr>
                   in case err of
                        Some e \<Rightarrow>
                          (Some (Structured
                                   (WithErrCode internalError1 ErrCodeResponseUnmarshalBody (Some e))), w')
                      | None \<Rightarrow> (None, w'))))"

section \<open>executeRequest\<close>

definition executeRequest ::
  "deps \<Rightarrow> 'n FastHttpClient \<Rightarrow> 't internalRawRequest \<Rightarrow> ('n, 't) world
     \<Rightarrow> go_error option \<times> ('n, 't) world" where
  "executeRequest L c req w =
     (case sendRequest L c req (internalError_of req) w of
        (Inl err, internalError, w1) \<Rightarrow> (Some err, w1)
      | (Inr response, internalError, w1) \<Rightarrow>
          (let internalError1 = internalError\<lparr>StatusCode := RespStatusCode response\<rparr>
           in case handleStatusCode L req response internalError1 of
                (Some err, internalError2) \<Rightarrow> (Some err, w1)
              | (None, internalError2) \<Rightarrow> handleResponse req response internalError2 w1))"

section \<open>The updates facade and the poller\<close>

text \<open>\<^verbatim>\<open>strconv.FormatInt(id, 10)\<close>: the decimal form of an integer.\<close>

definition digitChar :: "nat \<Rightarrow> char" where
  "digitChar d = ''0123456789'' ! d"

function FormatNat :: "nat \<Rightarrow> string" where
  "FormatNat n = (if n < 10 then [digitChar n] else FormatNat (n div 10) @ [digitChar (n mod 10)])"
  by pat_completeness auto
termination
  by (relation "measure (\<lambda>n. n)") auto

definition FormatInt :: "int \<Rightarrow> string" where
  "FormatInt i = (if i < 0 then CHR ''-'' # FormatNat (nat (- i)) else FormatNat (nat i))"

text \<open>The zero value \<^verbatim>\<open>Update{}\<close>.\<close>

definition Update_zero :: Update where
  "Update_zero =
     \<lparr>Status = '''', UpdateID = 0, Type = [], Error = '''', EnqueuedAt = '''', ProcessedAt = ''''\<rparr>"

text \<open>
  \<^verbatim>\<open>fastClientUpdates.Get\<close> (\<^verbatim>\<open>fast_client_updates.go\<close>, lines 17 to 35): a fresh
  \<^verbatim>\<open>Update\<close> is the response target of a GET that accepts the status 200 only.
\<close>

definition Get_request :: "deps \<Rightarrow> string \<Rightarrow> int \<Rightarrow> Update internalRawRequest" where
  "Get_request L indexUID id' =
     \<lparr>endpoint = ''/indexes/'' @ indexUID @ ''/updates/'' @ FormatInt id',
      method' = ''GET'',
      withRequest = None,
      withResponse = Some (Update_UnmarshalJSON L),
      withQueryParams = None,
      acceptedStatusCodes = Some [200],
      functionName = ''Get'',
      apiName = ''Updates''\<rparr>"

definition fastClientUpdates_Get ::
  "deps \<Rightarrow> 'n FastHttpClient \<Rightarrow> string \<Rightarrow> int \<Rightarrow> ('n, Update) world
     \<Rightarrow> (go_error + Update) \<times> ('n, Update) world" where
  "fastClientUpdates_Get L c indexUID id' w =
     (case executeRequest L c (Get_request L indexUID id') (w\<lparr>target := Update_zero\<rparr>) of
        (Some err, w') \<Rightarrow> (Inl err, w')
      | (None, w') \<Rightarrow> (Inr (target w'), w'))"

text \<open>
  What a call of the poller comes to: it returns a status and an error, or it panics
  (the dereference of a nil \<^verbatim>\<open>updateID\<close> in line 237).
\<close>

datatype wait_result = Panic | Returned UpdateStatus "go_error option"

text \<open>
  \<^verbatim>\<open>WaitForPendingUpdate\<close> (lines 226 to 246). The loop has no bound of its own, so the
  function takes the number of iterations it may run and gives \<open>None\<close> when they are used
  up. The context is given by what \<^verbatim>\<open>ctx.Err()\<close> returns at each time; \<^verbatim>\<open>time.Sleep\<close>
  of a duration that is not positive returns at once.
\<close>

fun WaitForPendingUpdate ::
  "nat \<Rightarrow> deps \<Rightarrow> 'n FastHttpClient \<Rightarrow> (nat \<Rightarrow> ctx_error option) \<Rightarrow> int \<Rightarrow> string
     \<Rightarrow> AsyncUpdateID option \<Rightarrow> ('n, Update) world
     \<Rightarrow> (wait_result \<times> ('n, Update) world) option" where
  "WaitForPendingUpdate 0 L c ctx interval indexID updateID w = None"
| "WaitForPendingUpdate (Suc fuel) L c ctx interval indexID updateID w =
     (case ctx (now w) of
        Some err \<Rightarrow> Some (Returned '''' (Some (ContextErr err)), w)
      | None \<Rightarrow>
          (case updateID of
             None \<Rightarrow> Some (Panic, w)
           | Some uid \<Rightarrow>
               (case fastClientUpdates_Get L c indexID (AsyncID uid) w of
                  (Inl err, w1) \<Rightarrow> Some (Returned UpdateStatusUnknown None, w1)
                | (Inr update, w1) \<Rightarrow>
                    if Status update \<noteq> UpdateStatusEnqueued
                    then Some (Returned (Status update) None, w1)
                    else WaitForPendingUpdate fuel L c ctx interval indexID updateID
                           (w1\<lparr>now := now w1 + nat interval\<rparr>))))"

text \<open>\<^verbatim>\<open>context.WithTimeout(context.Background(), d)\<close> made at the time \<open>t0\<close>.\<close>

definition WithTimeout :: "nat \<Rightarrow> nat \<Rightarrow> nat \<Rightarrow> ctx_error option" where
  "WithTimeout t0 d t = (if t0 + d \<le> t then Some DeadlineExceeded else None)"

text \<open>
  \<^verbatim>\<open>DefaultWaitForPendingUpdate\<close> (lines 215 to 220): five seconds, polling every
  fifty milliseconds.
\<close>

definition DefaultWaitForPendingUpdate ::
  "nat \<Rightarrow> deps \<Rightarrow> 'n FastHttpClient \<Rightarrow> string \<Rightarrow> AsyncUpdateID option \<Rightarrow> ('n, Update) world
     \<Rightarrow> (wait_result \<times> ('n, Update) world) option" where
  "DefaultWaitForPendingUpdate fuel L c indexUID updateID w =
     WaitForPendingUpdate fuel L c (WithTimeout (now w) 5000000000) 50000000 indexUID updateID w"

section \<open>Concrete collaborators, for evaluating the functions\<close>

text \<open>
  The release of fasthttp: \<^verbatim>\<open>ReleaseResponse\<close> resets the response before it puts it
  back into the pool. Read after that, \<^verbatim>\<open>StatusCode()\<close> gives 200, its value for a
  response without status code, and \<^verbatim>\<open>Body()\<close> is empty.
\<close>

definition fasthttp_ReleaseResponse :: "Response \<Rightarrow> Response" where
  "fasthttp_ReleaseResponse response = \<lparr>RespStatusCode = 200, RespBody = ''''\<rparr>"

text \<open>
  \<^verbatim>\<open>url.Parse\<close> on the URLs used below: it refuses a percent sign that is not followed by
  two hexadecimal digits, and otherwise splits an absolute URL into scheme, authority,
  path and query.
\<close>

definition isHex :: "char \<Rightarrow> bool" where
  "isHex ch = (ch \<in> set ''0123456789abcdefABCDEF'')"

fun badEscape :: "string \<Rightarrow> bool" where
  "badEscape (ch # a # b # rest) =
     (if ch = CHR ''%'' then \<not> (isHex a \<and> isHex b) \<or> badEscape rest
      else badEscape (a # b # rest))"
| "badEscape [ch, a] = (ch = CHR ''%'' \<or> a = CHR ''%'')"
| "badEscape [ch] = (ch = CHR ''%'')"
| "badEscape [] = False"

definition ex_url_Parse :: "string \<Rightarrow> lib_error + URL" where
  "ex_url_Parse s =
     (if badEscape s then Inl (LibError ''invalid URL escape'')
      else (let rest = drop 3 (dropWhile (\<lambda>ch. ch \<noteq> CHR '':'') s);
                hier = takeWhile (\<lambda>ch. ch \<noteq> CHR ''?'') rest
            in Inr \<lparr>Scheme = takeWhile (\<lambda>ch. ch \<noteq> CHR '':'') s,
                    Authority = takeWhile (\<lambda>ch. ch \<noteq> CHR ''/'') hier,
                    Path = dropWhile (\<lambda>ch. ch \<noteq> CHR ''/'') hier,
                    RawQuery = drop 1 (dropWhile (\<lambda>ch. ch \<noteq> CHR ''?'') rest),
                    Fragment = ''''\<rparr>))"

text \<open>
  An instance of the parameters: the parser above; the query \<^verbatim>\<open>limit=1\<close> is the only one
  an endpoint below embeds; the keys \<^verbatim>\<open>limit\<close> and \<^verbatim>\<open>offset\<close> are encoded in this order
  (\<^verbatim>\<open>Values.Encode\<close> sorts by key); the release is that of fasthttp; the bodies carry no
  message. The decoder of updates is not reached in the runs below; it is one that
  refuses the empty body and leaves the update as it is otherwise.
\<close>

definition ex_deps :: deps where
  "ex_deps =
     \<lparr>url_Parse = ex_url_Parse,
      URL_Query = (\<lambda>u. if RawQuery u = ''limit=1'' then [''limit'' \<mapsto> [''1'']] else Map.empty),
      Values_Encode = (\<lambda>q. (case q ''limit'' of Some [v] \<Rightarrow> ''limit='' @ v | _ \<Rightarrow> '''') @
                             (case q ''offset'' of Some [v] \<Rightarrow> ''&offset='' @ v | _ \<Rightarrow> '''')),
      URL_String = (\<lambda>u. Scheme u @ ''://'' @ Authority u @ Path u @
                          (if RawQuery u = '''' then '''' else CHR ''?'' # RawQuery u)),
      ReleaseResponse = fasthttp_ReleaseResponse,
      apiMessage = (\<lambda>b. None),
      Update_UnmarshalJSON =
        (\<lambda>data u. if data = '''' then (Some (LibError ''cannot parse empty string''), u)
                   else (None, u))\<rparr>"

text \<open>
  A client with an API key whose transport answers every request with the given
  response. The state behind the transport counts the requests; a round trip takes 1000
  nanoseconds.
\<close>

definition ex_client :: "Response \<Rightarrow> nat FastHttpClient" where
  "ex_client answer =
     \<lparr>config = \<lparr>Host = ''http://localhost:7700'', APIKey = ''masterKey''\<rparr>,
      httpClient = (\<lambda>rq t n. (Inr answer, 1000, Suc n))\<rparr>"

text \<open>A client without an API key whose transport fails.\<close>

definition ex_client_down :: "nat FastHttpClient" where
  "ex_client_down =
     \<lparr>config = \<lparr>Host = ''http://localhost:7700'', APIKey = ''''\<rparr>,
      httpClient = (\<lambda>rq t n. (Inl (LibError ''connection refused''), 1000, n))\<rparr>"

definition ex_world :: "'t \<Rightarrow> (nat, 't) world" where
  "ex_world content = \<lparr>now = 0, net = 0, sent = [], target = content, decoded = []\<rparr>"

text \<open>
  The descriptor of \<^verbatim>\<open>Indexes.Delete\<close> for the index \<^verbatim>\<open>movies\<close>
  (\<^verbatim>\<open>fast_client_indexes.go\<close>, lines 116 to 125): no payload, no response target, 204
  accepted.
\<close>

definition ex_delete :: "bytes internalRawRequest" where
  "ex_delete =
     \<lparr>endpoint = ''/indexes/movies'', method' = ''DELETE'', withRequest = None,
      withResponse = None, withQueryParams = None, acceptedStatusCodes = Some [204],
      functionName = ''Delete'', apiName = ''Indexes''\<rparr>"

text \<open>
  The descriptor of \<^verbatim>\<open>Documents.Get\<close> (\<^verbatim>\<open>fast_client_documents.go\<close>, lines 19 to 28) for
  the document of the given identifier, with a \<^verbatim>\<open>*RawType\<close> as the response target: 200
  accepted.
\<close>

definition ex_get_document :: "string \<Rightarrow> bytes internalRawRequest" where
  "ex_get_document identifier =
     \<lparr>endpoint = ''/indexes/movies/documents/'' @ identifier, method' = ''GET'',
      withRequest = None, withResponse = Some RawType_UnmarshalJSON,
      withQueryParams = None, acceptedStatusCodes = Some [200],
      functionName = ''Get'', apiName = ''Documents''\<rparr>"

text \<open>A POST whose payload cannot be serialized.\<close>

definition ex_post_bad_payload :: "bytes internalRawRequest" where
  "ex_post_bad_payload =
     \<lparr>endpoint = ''/indexes/movies/documents'', method' = ''POST'',
      withRequest = Some (Marshaler (''{'', Some (LibError ''unsupported value''))),
      withResponse = None, withQueryParams = None, acceptedStatusCodes = Some [202],
      functionName = ''AddOrReplace'', apiName = ''Documents''\<rparr>"

text \<open>A GET with query parameters, one of which the endpoint embeds already.\<close>

definition ex_list :: "bytes internalRawRequest" where
  "ex_list =
     \<lparr>endpoint = ''/indexes/movies/documents?limit=1'', method' = ''GET'',
      withRequest = None, withResponse = Some RawType_UnmarshalJSON,
      withQueryParams = Some [(''offset'', ''5''), (''limit'', ''20'')],
      acceptedStatusCodes = Some [200],
      functionName = ''List'', apiName = ''Documents''\<rparr>"

section \<open>Evaluation rules\<close>

lemmas run_defs = executeRequest_def sendRequest_def requestURL_of_def doRequest_def setHeaders_def
  handleStatusCode_def handleResponse_def internalError_of_def WithErrCode_def ErrorBody_def
  Let_def Values_Set_def

section \<open>Facts about the dispatcher\<close>

lemma codeAccepted_iff: "codeAccepted code codes \<longleftrightarrow> code \<in> set codes"
  by (induction codes) auto

lemma WithErrCode_fields [simp]:
  "ErrCode (WithErrCode e code errs) = code"
  "RequestToString (WithErrCode e code errs) = RequestToString e"
  "ResponseToString (WithErrCode e code errs) = ResponseToString e"
  "StatusCode (WithErrCode e code errs) = StatusCode e"
  "StatusCodeExpected (WithErrCode e code errs) = StatusCodeExpected e"
  "OriginError (WithErrCode e code (Some err)) = Some err"
  "OriginError (WithErrCode e code None) = OriginError e"
  by (simp_all add: WithErrCode_def split: option.splits)

lemma ErrorBody_fields [simp]:
  "ResponseToString (ErrorBody L e rawBody) = rawBody"
  "StatusCode (ErrorBody L e rawBody) = StatusCode e"
  "StatusCodeExpected (ErrorBody L e rawBody) = StatusCodeExpected e"
  "RequestToString (ErrorBody L e rawBody) = RequestToString e"
  "ErrCode (ErrorBody L e rawBody) = ErrCode e"
  by (simp_all add: ErrorBody_def split: option.splits)

lemma doRequest_frame:
  assumes "doRequest L c request ie w = (res, ie', w')"
  shows "sent w' = setHeaders (config c) request # sent w"
    and "target w' = target w" and "decoded w' = decoded w"
    and "now w' = now w + fst (snd (httpClient c (setHeaders (config c) request) (now w) (net w)))"
  using assms
  by (auto simp: doRequest_def Let_def split: prod.splits sum.splits)

lemma sendRequest_parse_fails:
  assumes "url_Parse L (Host (config c) @ endpoint req) = Inl err"
  shows "sendRequest L c req ie w = (Inl (Wrap err ''unable to parse url''), ie, w)"
  using assms by (simp add: sendRequest_def requestURL_of_def)

lemma sendRequest_frame:
  assumes "sendRequest L c req ie w = (res, ie', w')"
  shows "target w' = target w" and "decoded w' = decoded w"
    and "sent w' = sent w \<or> (\<exists>request. sent w' = request # sent w)"
  using assms
  by (auto simp: sendRequest_def Let_def split: prod.splits sum.splits option.splits
      dest: doRequest_frame)

lemma sendRequest_marshal_fails:
  assumes "withRequest req = Some m" and "MarshalJSON m = (data, Some err)"
  shows "snd (snd (sendRequest L c req ie w)) = w"
    and "url_Parse L (Host (config c) @ endpoint req) = Inr u \<Longrightarrow>
         fst (sendRequest L c req ie w) =
           Inl (Structured (WithErrCode (ie\<lparr>RequestToString := data\<rparr>) ErrCodeMarshalRequest (Some err)))"
  using assms
  by (auto simp: sendRequest_def requestURL_of_def Let_def split: sum.splits option.splits)

lemma sendRequest_Inr:
  assumes "sendRequest L c req ie w = (Inr response, ie', w1)"
  shows "(\<exists>u. url_Parse L (Host (config c) @ endpoint req) = Inr u) \<and>
         (\<forall>m. withRequest req = Some m \<longrightarrow> snd (MarshalJSON m) = None) \<and>
         (\<exists>request r. sent w1 = request # sent w \<and>
            fst (httpClient c request (now w) (net w)) = Inr r \<and> response = ReleaseResponse L r)"
  using assms
  by (auto simp: sendRequest_def requestURL_of_def doRequest_def Let_def
      split: prod.splits sum.splits option.splits)

text \<open>
  With the release of fasthttp, the response that \<^verbatim>\<open>sendRequest\<close> hands back reads as
  status 200 with an empty body, whatever the transport answered.
\<close>

lemma released_response:
  assumes "sendRequest L c req ie w = (Inr response, ie', w1)"
    and "ReleaseResponse L = fasthttp_ReleaseResponse"
  shows "response = \<lparr>RespStatusCode = 200, RespBody = ''''\<rparr>"
  using sendRequest_Inr[OF assms(1)] assms(2) by (auto simp: fasthttp_ReleaseResponse_def)

lemma sendRequest_uri:
  assumes "sendRequest L c req ie w = (res, ie', w')" and "sent w' = request # sent w"
  shows "\<exists>u. requestURL_of L (config c) req = Inr u \<and> RequestURI request = URL_String L u"
  using assms
  by (auto simp: sendRequest_def doRequest_def setHeaders_def Let_def
      split: prod.splits sum.splits option.splits if_splits)

lemma sendRequest_sent_headers:
  assumes "sendRequest L c req ie w = (res, ie', w')" and "sent w' = request # sent w"
  shows "Header request ''Content-Type'' = Some ''application/json'' \<and>
         Header request ''X-Meili-API-Key'' =
           (if APIKey (config c) \<noteq> '''' then Some (APIKey (config c)) else None)"
  using assms
  by (auto simp: sendRequest_def doRequest_def setHeaders_def Let_def
      split: prod.splits sum.splits option.splits if_splits)

lemma sendRequest_reaches_transport:
  assumes "url_Parse L (Host (config c) @ endpoint req) = Inr u"
    and "\<forall>m. withRequest req = Some m \<longrightarrow> snd (MarshalJSON m) = None"
  shows "\<exists>request. sent (snd (snd (sendRequest L c req ie w))) = request # sent w"
  using assms
  by (auto simp: sendRequest_def requestURL_of_def doRequest_def Let_def
      split: prod.splits sum.splits option.splits)

lemma handleStatusCode_accepts:
  "fst (handleStatusCode L req response ie) = None \<longleftrightarrow>
     (acceptedStatusCodes req = None \<or>
      (\<exists>codes. acceptedStatusCodes req = Some codes \<and> RespStatusCode response \<in> set codes))"
  by (auto simp: handleStatusCode_def codeAccepted_iff Let_def split: option.splits)

lemma handleStatusCode_rejects:
  assumes "acceptedStatusCodes req = Some codes" and "RespStatusCode response \<notin> set codes"
  shows "fst (handleStatusCode L req response ie) =
           Some (Structured (WithErrCode (ErrorBody L ie (RespBody response))
                               ErrCodeResponseStatusCode None))"
  using assms by (simp add: handleStatusCode_def codeAccepted_iff Let_def)

text \<open>
  \<^verbatim>\<open>handleStatusCode\<close> skips the classification for a nil list only (the test in line 181
  is \<^verbatim>\<open>!= nil\<close>): a list that is empty without being nil accepts no status code.
\<close>

lemma handleStatusCode_empty_list:
  assumes "acceptedStatusCodes req = Some []"
  shows "fst (handleStatusCode L req response ie) =
           Some (Structured (WithErrCode (ErrorBody L ie (RespBody response))
                               ErrCodeResponseStatusCode None))"
  using handleStatusCode_rejects[OF assms, of response L ie] by simp

lemma executeRequest_sent:
  "sent (snd (executeRequest L c req w)) = sent (snd (snd (sendRequest L c req (internalError_of req) w)))"
  by (auto simp: executeRequest_def handleResponse_def Let_def
      split: prod.splits sum.splits option.splits)

lemma executeRequest_now:
  "now (snd (executeRequest L c req w)) = now (snd (snd (sendRequest L c req (internalError_of req) w)))"
  by (auto simp: executeRequest_def handleResponse_def Let_def
      split: prod.splits sum.splits option.splits)

lemma setQueryParams_other:
  "key \<notin> fst ` set params \<Longrightarrow> setQueryParams params query key = query key"
  by (induction params arbitrary: query) (auto simp: Values_Set_def)

lemma setQueryParams_member:
  "distinct (map fst params) \<Longrightarrow> (key, val) \<in> set params \<Longrightarrow>
   setQueryParams params query key = Some [val]"
proof (induction params arbitrary: query)
  case Nil
  then show ?case by simp
next
  case (Cons p params)
  obtain k v where p: "p = (k, v)" by (cases p)
  show ?case
  proof (cases "(key, val) = p")
    case True
    then have "key \<notin> fst ` set params" using Cons.prems(1) p by auto
    then show ?thesis using True p by (simp add: setQueryParams_other Values_Set_def)
  next
    case False
    then have "(key, val) \<in> set params" using Cons.prems(2) by simp
    moreover have "distinct (map fst params)" using Cons.prems(1) by simp
    ultimately show ?thesis using Cons.IH p by simp
  qed
qed

section \<open>Facts about the poller\<close>

lemma sendRequest_now:
  assumes "\<forall>rq t n. fst (snd (httpClient c rq t n)) \<le> R"
  shows "now w \<le> now (snd (snd (sendRequest L c req ie w))) \<and>
         now (snd (snd (sendRequest L c req ie w))) \<le> now w + R"
proof -
  have d: "now w0 \<le> now (snd (snd (doRequest L c rq ie0 w0))) \<and>
           now (snd (snd (doRequest L c rq ie0 w0))) \<le> now w0 + R"
    for rq ie0 and w0 :: "('a, 'b) world"
    using assms[rule_format, of "setHeaders (config c) rq" "now w0" "net w0"]
    by (auto simp: doRequest_def Let_def split: prod.splits sum.splits)
  show ?thesis
    using d
    by (auto simp: sendRequest_def Let_def split: prod.splits sum.splits option.splits)
qed

lemma Get_now:
  assumes "\<forall>rq t n. fst (snd (httpClient c rq t n)) \<le> R"
  shows "now w \<le> now (snd (fastClientUpdates_Get L c indexUID i w)) \<and>
         now (snd (fastClientUpdates_Get L c indexUID i w)) \<le> now w + R"
proof -
  let ?w0 = "w\<lparr>target := Update_zero\<rparr>"
  have "snd (fastClientUpdates_Get L c indexUID i w) =
        snd (executeRequest L c (Get_request L indexUID i) ?w0)"
    by (auto simp: fastClientUpdates_Get_def split: prod.splits option.splits)
  then show ?thesis
    using sendRequest_now[OF assms, of ?w0 L "Get_request L indexUID i"
        "internalError_of (Get_request L indexUID i)"]
    by (simp add: executeRequest_now)
qed

lemma Get_now_mono: "now w \<le> now (snd (fastClientUpdates_Get L c indexUID i w))"
proof -
  let ?w0 = "w\<lparr>target := Update_zero\<rparr>"
  let ?rq = "Get_request L indexUID i"
  have "snd (fastClientUpdates_Get L c indexUID i w) = snd (executeRequest L c ?rq ?w0)"
    by (auto simp: fastClientUpdates_Get_def split: prod.splits option.splits)
  moreover have "now ?w0 \<le> now (snd (snd (sendRequest L c ?rq (internalError_of ?rq) ?w0)))"
    by (auto simp: sendRequest_def doRequest_def Let_def
        split: prod.splits sum.splits option.splits)
  ultimately show ?thesis by (simp add: executeRequest_now)
qed

lemma Get_sent:
  assumes "fastClientUpdates_Get L c indexUID i w = (g, w1)"
  shows "sent w1 = sent w \<or> (\<exists>request. sent w1 = request # sent w)"
proof -
  let ?w0 = "w\<lparr>target := Update_zero\<rparr>"
  let ?rq = "Get_request L indexUID i"
  obtain res ie' w' where s: "sendRequest L c ?rq (internalError_of ?rq) ?w0 = (res, ie', w')"
    by (cases "sendRequest L c ?rq (internalError_of ?rq) ?w0") auto
  have "w1 = snd (executeRequest L c ?rq ?w0)"
    using assms by (auto simp: fastClientUpdates_Get_def split: prod.splits option.splits)
  then have "sent w1 = sent w'" using executeRequest_sent[of L c ?rq ?w0] s by simp
  then show ?thesis using sendRequest_frame(3)[OF s] by simp
qed

lemma wait_error_only_from_context:
  assumes "WaitForPendingUpdate n L c ctx interval indexID updateID w =
             Some (Returned status (Some err), w')"
  shows "status = '''' \<and> (\<exists>e. ctx (now w') = Some e \<and> err = ContextErr e)"
  using assms
proof (induction n arbitrary: w)
  case 0
  then show ?case by simp
next
  case (Suc n)
  then show ?case
    by (auto split: option.splits prod.splits sum.splits if_splits)
qed

lemma wait_first_check:
  assumes "ctx (now w) = Some e" and "Suc n \<le> m"
  shows "WaitForPendingUpdate m L c ctx interval indexID updateID w =
           Some (Returned '''' (Some (ContextErr e)), w)"
proof -
  obtain m' where "m = Suc m'" using assms(2) by (cases m) auto
  then show ?thesis using assms(1) by simp
qed

lemma wait_terminates:
  assumes fires: "\<forall>t\<ge>d. ctx t \<noteq> None"
  shows "d \<le> now w + n * nat interval \<Longrightarrow>
         \<exists>r w'. \<forall>m\<ge>Suc n. WaitForPendingUpdate m L c ctx interval indexID updateID w = Some (r, w')"
proof (induction n arbitrary: w)
  case 0
  then have "ctx (now w) \<noteq> None" using fires by simp
  then obtain e where e: "ctx (now w) = Some e" by blast
  then show ?case using wait_first_check by blast
next
  case (Suc k)
  show ?case
  proof (cases "ctx (now w)")
    case (Some e)
    then show ?thesis using wait_first_check by blast
  next
    case None
    show ?thesis
    proof (cases updateID)
      case N: None
      have "\<forall>m\<ge>Suc (Suc k). WaitForPendingUpdate m L c ctx interval indexID updateID w =
              Some (Panic, w)"
      proof (intro allI impI)
        fix m :: nat assume "Suc (Suc k) \<le> m"
        then obtain m' where "m = Suc m'" by (cases m) auto
        then show "WaitForPendingUpdate m L c ctx interval indexID updateID w = Some (Panic, w)"
          using None N by simp
      qed
      then show ?thesis by blast
    next
      case (Some uid)
      obtain g w1 where g: "fastClientUpdates_Get L c indexID (AsyncID uid) w = (g, w1)"
        by (cases "fastClientUpdates_Get L c indexID (AsyncID uid) w") auto
      have t1: "now w \<le> now w1"
        using Get_now_mono[of w L c indexID "AsyncID uid"] g by simp
      show ?thesis
      proof (cases g)
        case (Inl err)
        have "\<forall>m\<ge>Suc (Suc k). WaitForPendingUpdate m L c ctx interval indexID updateID w =
                Some (Returned UpdateStatusUnknown None, w1)"
        proof (intro allI impI)
          fix m :: nat assume "Suc (Suc k) \<le> m"
          then obtain m' where "m = Suc m'" by (cases m) auto
          then show "WaitForPendingUpdate m L c ctx interval indexID updateID w =
                Some (Returned UpdateStatusUnknown None, w1)"
            using None Some g Inl by simp
        qed
        then show ?thesis by blast
      next
        case (Inr update)
        show ?thesis
        proof (cases "Status update \<noteq> UpdateStatusEnqueued")
          case True
          have "\<forall>m\<ge>Suc (Suc k). WaitForPendingUpdate m L c ctx interval indexID updateID w =
                  Some (Returned (Status update) None, w1)"
          proof (intro allI impI)
            fix m :: nat assume "Suc (Suc k) \<le> m"
            then obtain m' where "m = Suc m'" by (cases m) auto
            then show "WaitForPendingUpdate m L c ctx interval indexID updateID w =
                  Some (Returned (Status update) None, w1)"
              using None Some g Inr True by simp
          qed
          then show ?thesis by blast
        next
          case False
          let ?w2 = "w1\<lparr>now := now w1 + nat interval\<rparr>"
          have "d \<le> now ?w2 + k * nat interval"
            using Suc.prems t1 by simp
          from Suc.IH[OF this] obtain r w' where
            ih: "\<forall>m\<ge>Suc k. WaitForPendingUpdate m L c ctx interval indexID updateID ?w2 = Some (r, w')"
            by blast
          have "\<forall>m\<ge>Suc (Suc k). WaitForPendingUpdate m L c ctx interval indexID updateID w =
                  Some (r, w')"
          proof (intro allI impI)
            fix m :: nat assume m: "Suc (Suc k) \<le> m"
            then obtain m' where m': "m = Suc m'" by (cases m) auto
            then have "Suc k \<le> m'" using m by simp
            then have "WaitForPendingUpdate m' L c ctx interval indexID updateID ?w2 = Some (r, w')"
              using ih by blast
            then show "WaitForPendingUpdate m L c ctx interval indexID updateID w = Some (r, w')"
              using None Some g Inr False m' by simp
          qed
          then show ?thesis by blast
        qed
      qed
    qed
  qed
qed

lemma DefaultWaitForPendingUpdate_returns:
  "\<exists>r w'. \<forall>m\<ge>101. DefaultWaitForPendingUpdate m L c indexUID updateID w = Some (r, w')"
proof -
  have f: "\<forall>t\<ge>now w + 5000000000. WithTimeout (now w) 5000000000 t \<noteq> None"
    by (simp add: WithTimeout_def)
  have "now w + 5000000000 \<le> now w + 100 * nat 50000000" by simp
  from wait_terminates[OF f this, of L c indexUID updateID]
  show ?thesis by (simp add: DefaultWaitForPendingUpdate_def)
qed

lemma wait_time_bound:
  assumes fires: "\<forall>t\<ge>d. ctx t \<noteq> None"
    and rt: "\<forall>rq t n. fst (snd (httpClient c rq t n)) \<le> R"
  shows "WaitForPendingUpdate m L c ctx interval indexID updateID w = Some (r, w') \<Longrightarrow>
         now w' \<le> max (now w) (d + R + nat interval)"
proof (induction m arbitrary: w)
  case 0
  then show ?case by simp
next
  case (Suc m)
  show ?case
  proof (cases "ctx (now w)")
    case (Some e)
    then show ?thesis using Suc.prems by simp
  next
    case None
    then have lt: "now w < d" using fires by (metis not_le_imp_less)
    show ?thesis
    proof (cases updateID)
      case N: None
      then show ?thesis using Suc.prems None by simp
    next
      case (Some uid)
      obtain g w1 where g: "fastClientUpdates_Get L c indexID (AsyncID uid) w = (g, w1)"
        by (cases "fastClientUpdates_Get L c indexID (AsyncID uid) w") auto
      have t1: "now w1 \<le> now w + R"
        using Get_now[OF rt, of w L indexID "AsyncID uid"] g by simp
      show ?thesis
      proof (cases g)
        case (Inl err)
        then show ?thesis using Suc.prems None Some g t1 lt by auto
      next
        case (Inr update)
        show ?thesis
        proof (cases "Status update \<noteq> UpdateStatusEnqueued")
          case True
          then show ?thesis using Suc.prems None Some g Inr t1 lt by auto
        next
          case False
          let ?w2 = "w1\<lparr>now := now w1 + nat interval\<rparr>"
          have "WaitForPendingUpdate m L c ctx interval indexID updateID ?w2 = Some (r, w')"
            using Suc.prems None Some g Inr False by simp
          from Suc.IH[OF this] have "now w' \<le> max (now ?w2) (d + R + nat interval)" .
          then show ?thesis using t1 lt by simp
        qed
      qed
    qed
  qed
qed

lemma wait_panic_only_nil:
  assumes "WaitForPendingUpdate m L c ctx interval indexID updateID w = Some (Panic, w')"
  shows "updateID = None"
  using assms
proof (induction m arbitrary: w)
  case 0
  then show ?case by simp
next
  case (Suc m)
  then show ?case
    by (auto split: option.splits prod.splits sum.splits if_splits)
qed

lemma ex_down_get:
  "fst (fastClientUpdates_Get ex_deps ex_client_down ''movies'' 1 (ex_world Update_zero)) =
     Inl (Structured
       \<lparr>Endpoint = ''/indexes/movies/updates/1'', Method = ''GET'', Function = ''Get'',
        APIName = ''Updates'', RequestToString = ''empty request'',
        ResponseToString = ''empty response'',
        MeilisearchMessage = ''empty meilisearch message'', StatusCode = 0,
        StatusCodeExpected = Some [200], ErrCode = ErrCodeRequestExecution,
        OriginError = Some (LibError ''connection refused'')\<rparr>)"
  by (simp add: fastClientUpdates_Get_def Get_request_def FormatInt_def digitChar_def
      run_defs ex_deps_def ex_url_Parse_def isHex_def ex_client_down_def ex_world_def)

lemma ex_client_down_round_trip:
  "\<forall>rq t n. fst (snd (httpClient ex_client_down rq t n)) \<le> 1000"
  by (simp add: ex_client_down_def)

section \<open>The response is read after its release\<close>

text \<open>
  Claim C1, where the code departs from it. The claim has every Transport response
  whose status code is outside a non-empty accepted set end in an error of the kind
  \<^verbatim>\<open>ErrCodeResponseStatusCode\<close>, and so has the comment in lines 183 and 184 of
  \<^verbatim>\<open>fast_client.go\<close>. But \<^verbatim>\<open>sendRequest\<close> releases the response before it returns it
  (lines 144 and 177), and \<^verbatim>\<open>executeRequest\<close> classifies the status code of the released
  response, which is 200 whatever the transport answered. For \<^verbatim>\<open>Documents.Get\<close>, which
  accepts 200 only, a transport that answers 404 is therefore accepted: the dispatch
  returns no error.
\<close>

theorem C1_transport_404_accepted:
  "acceptedStatusCodes (ex_get_document ''1'') = Some [200] \<and>
   fst (executeRequest ex_deps
          (ex_client \<lparr>RespStatusCode = 404, RespBody = ''Document not found''\<rparr>)
          (ex_get_document ''1'') (ex_world ''previous document'')) = None"
  by (simp add: run_defs ex_deps_def ex_url_Parse_def isHex_def fasthttp_ReleaseResponse_def
      ex_client_def ex_world_def ex_get_document_def RawType_UnmarshalJSON_def)

text \<open>
  Claim C6, where the code departs from it, by the defect of claim C1. \<^verbatim>\<open>Indexes.Delete\<close>
  has no response target and accepts 204 only; the comment in line 127 of
  \<^verbatim>\<open>fast_client_indexes.go\<close> says that the error is not nil if the status code is not
  204. When the transport answers 204, the observed status code is the accepted one,
  but the status code read from the released response is 200: the dispatch does not
  succeed, it fails with an error of the kind \<^verbatim>\<open>ErrCodeResponseStatusCode\<close>.
\<close>

theorem C6_transport_204_rejected:
  "withResponse ex_delete = None \<and> acceptedStatusCodes ex_delete = Some [204] \<and>
   fst (executeRequest ex_deps (ex_client \<lparr>RespStatusCode = 204, RespBody = ''''\<rparr>)
          ex_delete (ex_world ''previous document'')) =
     Some (Structured
       \<lparr>Endpoint = ''/indexes/movies'', Method = ''DELETE'', Function = ''Delete'',
        APIName = ''Indexes'', RequestToString = ''empty request'', ResponseToString = '''',
        MeilisearchMessage = ''empty meilisearch message'', StatusCode = 200,
        StatusCodeExpected = Some [204], ErrCode = ErrCodeResponseStatusCode,
        OriginError = None\<rparr>)"
  by (simp add: run_defs ex_deps_def ex_url_Parse_def isHex_def fasthttp_ReleaseResponse_def
      ex_client_def ex_world_def ex_delete_def)

text \<open>
  Claim C7, where the code departs from it, by the defect of claim C1. The claim has the
  response target written only after the observed status code was accepted. For
  \<^verbatim>\<open>Documents.Get\<close> with a \<^verbatim>\<open>*RawType\<close> as the target, a transport answer of 500 is read
  as 200 from the released response, the dispatch goes on to \<^verbatim>\<open>handleResponse\<close>, and
  \<^verbatim>\<open>UnmarshalJSON\<close> is invoked on the empty body of the released response: the target,
  which held a document, is overwritten, and no error is returned.
\<close>

theorem C7_transport_500_decoded:
  "acceptedStatusCodes (ex_get_document ''1'') = Some [200] \<and>
   fst (executeRequest ex_deps
          (ex_client \<lparr>RespStatusCode = 500, RespBody = ''Internal error''\<rparr>)
          (ex_get_document ''1'') (ex_world ''previous document'')) = None \<and>
   decoded (snd (executeRequest ex_deps
          (ex_client \<lparr>RespStatusCode = 500, RespBody = ''Internal error''\<rparr>)
          (ex_get_document ''1'') (ex_world ''previous document''))) = [''''] \<and>
   target (snd (executeRequest ex_deps
          (ex_client \<lparr>RespStatusCode = 500, RespBody = ''Internal error''\<rparr>)
          (ex_get_document ''1'') (ex_world ''previous document''))) = ''''"
  by (simp add: run_defs ex_deps_def ex_url_Parse_def isHex_def fasthttp_ReleaseResponse_def
      ex_client_def ex_world_def ex_get_document_def RawType_UnmarshalJSON_def)

section \<open>Failures before the transport\<close>

text \<open>
  Claim C5, as amended. When the URL made of the host and the endpoint does not parse,
  the dispatch returns the parse error wrapped by \<^verbatim>\<open>errors.Wrap\<close> with the message
  \<^verbatim>\<open>unable to parse url\<close>, which is not an \<^verbatim>\<open>Error\<close> and carries no kind, and the world
  is unchanged: no request went out and nothing was decoded.
\<close>

theorem C5_url_error:
  assumes "url_Parse L (Host (config c) @ endpoint req) = Inl err"
  shows "executeRequest L c req w = (Some (Wrap err ''unable to parse url''), w)"
  using assms by (simp add: executeRequest_def sendRequest_parse_fails)

text \<open>Claim C5, an instance: the identifier \<^verbatim>\<open>%zz\<close>, an invalid escape.\<close>

theorem C5_witness:
  "url_Parse ex_deps
     (Host (config (ex_client \<lparr>RespStatusCode = 200, RespBody = ''{}''\<rparr>)) @
      endpoint (ex_get_document ''%zz'')) = Inl (LibError ''invalid URL escape'') \<and>
   executeRequest ex_deps (ex_client \<lparr>RespStatusCode = 200, RespBody = ''{}''\<rparr>)
     (ex_get_document ''%zz'') (ex_world ''previous document'') =
     (Some (Wrap (LibError ''invalid URL escape'') ''unable to parse url''),
      ex_world ''previous document'')"
proof -
  have h: "url_Parse ex_deps
     (Host (config (ex_client \<lparr>RespStatusCode = 200, RespBody = ''{}''\<rparr>)) @
      endpoint (ex_get_document ''%zz'')) = Inl (LibError ''invalid URL escape'')"
    by (simp add: ex_deps_def ex_url_Parse_def isHex_def ex_client_def ex_get_document_def)
  show ?thesis using h C5_url_error[OF h] by simp
qed

text \<open>
  Claim C5 as stated fails: for \<^verbatim>\<open>Documents.Get\<close> of the identifier \<^verbatim>\<open>%zz\<close>, whose URL
  does not parse (the escape is invalid), the error returned is the wrapped parse error,
  not a structured error of some kind.
\<close>

theorem C5_counterexample:
  "executeRequest ex_deps (ex_client \<lparr>RespStatusCode = 200, RespBody = ''{}''\<rparr>)
     (ex_get_document ''%zz'') (ex_world ''previous document'') =
     (Some (Wrap (LibError ''invalid URL escape'') ''unable to parse url''),
      ex_world ''previous document'')"
  by (simp add: run_defs ex_deps_def ex_url_Parse_def isHex_def
      ex_client_def ex_world_def ex_get_document_def)

text \<open>
  Claim C2. When the payload is present and its \<^verbatim>\<open>MarshalJSON\<close> fails, the dispatch leaves
  the world as it was, so the transport is never invoked. The payload is serialized once
  the URL has been built (lines 125 to 129 come first); for every descriptor whose URL
  parses, the dispatch then returns a structured error of the kind
  \<^verbatim>\<open>ErrCodeMarshalRequest\<close> that wraps the cause and whose request text is what
  \<^verbatim>\<open>MarshalJSON\<close> returned beside the error.
\<close>

theorem C2_serialization_failure:
  assumes "withRequest req = Some m" and "MarshalJSON m = (data, Some err)"
  shows "snd (executeRequest L c req w) = w \<and>
         (\<forall>u. url_Parse L (Host (config c) @ endpoint req) = Inr u \<longrightarrow>
            (\<exists>e. fst (executeRequest L c req w) = Some (Structured e) \<and>
                 ErrCode e = ErrCodeMarshalRequest \<and> RequestToString e = data \<and>
                 OriginError e = Some err))"
proof -
  obtain res ie' w' where s: "sendRequest L c req (internalError_of req) w = (res, ie', w')"
    by (cases "sendRequest L c req (internalError_of req) w") auto
  from sendRequest_marshal_fails(1)[OF assms, of L c "internalError_of req" w] s
  have w': "w' = w" by simp
  have isl: "\<exists>e. res = Inl e"
    using s assms
    by (auto simp: sendRequest_def Let_def split: sum.splits option.splits)
  then obtain e0 where res: "res = Inl e0" by blast
  have ex: "executeRequest L c req w = (Some e0, w)"
    using s res w' by (simp add: executeRequest_def)
  show ?thesis
  proof (intro conjI allI impI)
    show "snd (executeRequest L c req w) = w" using ex by simp
  next
    fix u assume u: "url_Parse L (Host (config c) @ endpoint req) = Inr u"
    from sendRequest_marshal_fails(2)[OF assms u, of "internalError_of req" w] s res
    have "e0 = Structured (WithErrCode ((internalError_of req)\<lparr>RequestToString := data\<rparr>)
                 ErrCodeMarshalRequest (Some err))" by simp
    then show "\<exists>e. fst (executeRequest L c req w) = Some (Structured e) \<and>
                 ErrCode e = ErrCodeMarshalRequest \<and> RequestToString e = data \<and>
                 OriginError e = Some err"
      using ex by simp
  qed
qed

text \<open>Claim C2, an instance: a POST whose payload cannot be serialized.\<close>

theorem C2_witness:
  "withRequest ex_post_bad_payload = Some (Marshaler (''{'', Some (LibError ''unsupported value''))) \<and>
   MarshalJSON (Marshaler (''{'', Some (LibError ''unsupported value''))) =
     (''{'', Some (LibError ''unsupported value'')) \<and>
   (\<exists>u. url_Parse ex_deps
          (Host (config (ex_client \<lparr>RespStatusCode = 202, RespBody = ''{}''\<rparr>)) @
           endpoint ex_post_bad_payload) = Inr u) \<and>
   snd (executeRequest ex_deps (ex_client \<lparr>RespStatusCode = 202, RespBody = ''{}''\<rparr>)
          ex_post_bad_payload (ex_world ''previous document'')) = ex_world ''previous document'' \<and>
   (\<exists>e. fst (executeRequest ex_deps (ex_client \<lparr>RespStatusCode = 202, RespBody = ''{}''\<rparr>)
               ex_post_bad_payload (ex_world ''previous document'')) = Some (Structured e) \<and>
        ErrCode e = ErrCodeMarshalRequest \<and> RequestToString e = ''{'' \<and>
        OriginError e = Some (LibError ''unsupported value''))"
proof -
  let ?c = "ex_client \<lparr>RespStatusCode = 202, RespBody = ''{}''\<rparr>"
  have h1: "withRequest ex_post_bad_payload =
              Some (Marshaler (''{'', Some (LibError ''unsupported value'')))"
    by (simp add: ex_post_bad_payload_def)
  have h2: "MarshalJSON (Marshaler (''{'', Some (LibError ''unsupported value''))) =
              (''{'', Some (LibError ''unsupported value''))"
    by simp
  have h3: "\<exists>u. url_Parse ex_deps (Host (config ?c) @ endpoint ex_post_bad_payload) = Inr u"
    by (simp add: ex_deps_def ex_url_Parse_def isHex_def ex_client_def ex_post_bad_payload_def)
  show ?thesis
    using h1 h2 h3 C2_serialization_failure[OF h1 h2, of ex_deps ?c "ex_world ''previous document''"] by blast
qed

section \<open>The outgoing request\<close>

text \<open>
  Claim C8. For a descriptor with query parameters (the entries of a Go map, in any
  order) whose URL parses, the query of the request URL is the encoding of a
  \<^verbatim>\<open>url.Values\<close> in which every key of the descriptor has exactly the descriptor's value,
  also when the endpoint embeds the key, and every other key has what the endpoint
  embeds. The request handed to the transport carries this URL.
\<close>

theorem C8_query_params:
  assumes "withQueryParams req = Some params" and "distinct (map fst params)"
    and "url_Parse L (Host (config c) @ endpoint req) = Inr u"
  shows "\<exists>query.
           requestURL_of L (config c) req = Inr (u\<lparr>RawQuery := Values_Encode L query\<rparr>) \<and>
           (\<forall>(key, val) \<in> set params. query key = Some [val]) \<and>
           (\<forall>key. key \<notin> fst ` set params \<longrightarrow> query key = URL_Query L u key) \<and>
           (\<forall>ie w res ie' w' request.
              sendRequest L c req ie w = (res, ie', w') \<and> sent w' = request # sent w \<longrightarrow>
              RequestURI request = URL_String L (u\<lparr>RawQuery := Values_Encode L query\<rparr>))"
proof -
  let ?q = "setQueryParams params (URL_Query L u)"
  have r: "requestURL_of L (config c) req = Inr (u\<lparr>RawQuery := Values_Encode L ?q\<rparr>)"
    using assms(1,3) by (simp add: requestURL_of_def)
  have m: "\<forall>(key, val) \<in> set params. ?q key = Some [val]"
    using setQueryParams_member[OF assms(2)] by auto
  have o: "\<forall>key. key \<notin> fst ` set params \<longrightarrow> ?q key = URL_Query L u key"
    using setQueryParams_other by metis
  have s: "\<forall>ie w res ie' w' request.
              sendRequest L c req ie w = (res, ie', w') \<and> sent w' = request # sent w \<longrightarrow>
              RequestURI request = URL_String L (u\<lparr>RawQuery := Values_Encode L ?q\<rparr>)"
    using sendRequest_uri r by fastforce
  show ?thesis using r m o s by blast
qed

text \<open>
  Claim C8, an instance: the endpoint embeds \<^verbatim>\<open>limit=1\<close>, the descriptor has
  \<^verbatim>\<open>limit=20\<close> and \<^verbatim>\<open>offset=5\<close>.
\<close>

theorem C8_witness:
  "withQueryParams ex_list = Some [(''offset'', ''5''), (''limit'', ''20'')] \<and>
   distinct (map fst [(''offset'', ''5''), (''limit'', ''20'')]) \<and>
   url_Parse ex_deps
     (Host (config (ex_client \<lparr>RespStatusCode = 200, RespBody = ''[]''\<rparr>)) @ endpoint ex_list) =
     Inr \<lparr>Scheme = ''http'', Authority = ''localhost:7700'', Path = ''/indexes/movies/documents'',
          RawQuery = ''limit=1'', Fragment = ''''\<rparr> \<and>
   URL_Query ex_deps
     \<lparr>Scheme = ''http'', Authority = ''localhost:7700'', Path = ''/indexes/movies/documents'',
      RawQuery = ''limit=1'', Fragment = ''''\<rparr> ''limit'' = Some [''1''] \<and>
   (\<exists>query. requestURL_of ex_deps
               (config (ex_client \<lparr>RespStatusCode = 200, RespBody = ''[]''\<rparr>)) ex_list =
        Inr \<lparr>Scheme = ''http'', Authority = ''localhost:7700'',
             Path = ''/indexes/movies/documents'',
             RawQuery = Values_Encode ex_deps query, Fragment = ''''\<rparr> \<and>
      query ''limit'' = Some [''20''] \<and> query ''offset'' = Some [''5''])"
proof -
  let ?c = "ex_client \<lparr>RespStatusCode = 200, RespBody = ''[]''\<rparr>"
  let ?u = "\<lparr>Scheme = ''http'', Authority = ''localhost:7700'',
             Path = ''/indexes/movies/documents'', RawQuery = ''limit=1'', Fragment = ''''\<rparr>"
  have h1: "withQueryParams ex_list = Some [(''offset'', ''5''), (''limit'', ''20'')]"
    by (simp add: ex_list_def)
  have h2: "distinct (map fst [(''offset'', ''5''), (''limit'', ''20'')])" by simp
  have h3: "url_Parse ex_deps (Host (config ?c) @ endpoint ex_list) = Inr ?u"
    by (simp add: ex_deps_def ex_url_Parse_def isHex_def ex_client_def ex_list_def)
  have q: "URL_Query ex_deps ?u ''limit'' = Some [''1'']" by (simp add: ex_deps_def)
  from C8_query_params[OF h1 h2 h3] obtain query where
    o: "requestURL_of ex_deps (config ?c) ex_list =
          Inr (?u\<lparr>RawQuery := Values_Encode ex_deps query\<rparr>)"
       "\<forall>(key, val) \<in> set [(''offset'', ''5''), (''limit'', ''20'')]. query key = Some [val]"
    by blast
  from o(2) have "query ''limit'' = Some [''20''] \<and> query ''offset'' = Some [''5'']" by simp
  then show ?thesis using h1 h2 h3 q o(1) by auto
qed

text \<open>
  Claim C10. A dispatch hands at most one request to the transport, and that request has
  the header \<^verbatim>\<open>Content-Type: application/json\<close> and has the header \<^verbatim>\<open>X-Meili-API-Key\<close>
  if and only if the configured key is not empty (its value is then the key). A
  descriptor without payload whose URL parses does reach the transport, so this holds
  for GET and DELETE requests too.
\<close>

theorem C10_headers:
  "(sent (snd (executeRequest L c req w)) = sent w \<or>
    (\<exists>request. sent (snd (executeRequest L c req w)) = request # sent w \<and>
       Header request ''Content-Type'' = Some ''application/json'' \<and>
       (Header request ''X-Meili-API-Key'' \<noteq> None \<longleftrightarrow> APIKey (config c) \<noteq> '''') \<and>
       (APIKey (config c) \<noteq> '''' \<longrightarrow> Header request ''X-Meili-API-Key'' = Some (APIKey (config c))))) \<and>
   ((\<exists>u. url_Parse L (Host (config c) @ endpoint req) = Inr u) \<and> withRequest req = None \<longrightarrow>
      sent (snd (executeRequest L c req w)) \<noteq> sent w)"
proof -
  obtain res ie' w' where s: "sendRequest L c req (internalError_of req) w = (res, ie', w')"
    by (cases "sendRequest L c req (internalError_of req) w") auto
  have e: "sent (snd (executeRequest L c req w)) = sent w'"
    using executeRequest_sent[of L c req w] s by simp
  have a: "sent w' = sent w \<or>
    (\<exists>request. sent w' = request # sent w \<and>
       Header request ''Content-Type'' = Some ''application/json'' \<and>
       (Header request ''X-Meili-API-Key'' \<noteq> None \<longleftrightarrow> APIKey (config c) \<noteq> '''') \<and>
       (APIKey (config c) \<noteq> '''' \<longrightarrow> Header request ''X-Meili-API-Key'' = Some (APIKey (config c))))"
  proof (cases "sent w' = sent w")
    case True
    then show ?thesis by simp
  next
    case False
    then obtain request where r: "sent w' = request # sent w"
      using sendRequest_frame(3)[OF s] by blast
    from sendRequest_sent_headers[OF s r] r show ?thesis by auto
  qed
  have b: "(\<exists>u. url_Parse L (Host (config c) @ endpoint req) = Inr u) \<and> withRequest req = None \<longrightarrow>
      sent w' \<noteq> sent w"
  proof
    assume h: "(\<exists>u. url_Parse L (Host (config c) @ endpoint req) = Inr u) \<and> withRequest req = None"
    then obtain u where u: "url_Parse L (Host (config c) @ endpoint req) = Inr u" by blast
    have "\<forall>m. withRequest req = Some m \<longrightarrow> snd (MarshalJSON m) = None" using h by simp
    from sendRequest_reaches_transport[OF u this, of "internalError_of req" w] s
    show "sent w' \<noteq> sent w" by auto
  qed
  show ?thesis using a b e by simp
qed

text \<open>
  Claim C10, an instance: the DELETE of \<^verbatim>\<open>Indexes.Delete\<close>, without payload, sent by a
  client with the key \<^verbatim>\<open>masterKey\<close>.
\<close>

theorem C10_witness:
  "(\<exists>u. url_Parse ex_deps
          (Host (config (ex_client \<lparr>RespStatusCode = 204, RespBody = ''''\<rparr>)) @
           endpoint ex_delete) = Inr u) \<and>
   withRequest ex_delete = None \<and>
   APIKey (config (ex_client \<lparr>RespStatusCode = 204, RespBody = ''''\<rparr>)) = ''masterKey'' \<and>
   (\<exists>request.
      sent (snd (executeRequest ex_deps (ex_client \<lparr>RespStatusCode = 204, RespBody = ''''\<rparr>)
                   ex_delete (ex_world ''previous document''))) = request # sent (ex_world ''previous document'') \<and>
      Header request ''Content-Type'' = Some ''application/json'' \<and>
      Header request ''X-Meili-API-Key'' = Some ''masterKey'')"
proof -
  let ?c = "ex_client \<lparr>RespStatusCode = 204, RespBody = ''''\<rparr>"
  have h1: "\<exists>u. url_Parse ex_deps (Host (config ?c) @ endpoint ex_delete) = Inr u"
    by (simp add: ex_deps_def ex_url_Parse_def isHex_def ex_client_def ex_delete_def)
  have h2: "withRequest ex_delete = None" by (simp add: ex_delete_def)
  have k: "APIKey (config ?c) = ''masterKey''" by (simp add: ex_client_def)
  show ?thesis
    using h1 h2 k C10_headers[of ex_deps ?c ex_delete "ex_world ''previous document''"] by auto
qed

section \<open>The poller\<close>

text \<open>
  Claim C3. Every iteration of the loop is a call of \<^verbatim>\<open>WaitForPendingUpdate\<close> on the world
  of that moment. If \<^verbatim>\<open>ctx.Err()\<close> is not nil then, the call returns the empty status and
  that error, and the world is unchanged: no request is issued. And whenever the poller
  returns an error, after any number of iterations, the status is empty and the error is
  the one the context reports at the moment of the return; with a terminal status or
  after a failed fetch the error is nil.
\<close>

theorem C3_cancellation:
  "(\<forall>e. ctx (now w) = Some e \<longrightarrow>
      WaitForPendingUpdate (Suc fuel) L c ctx interval indexID updateID w =
        Some (Returned '''' (Some (ContextErr e)), w)) \<and>
   (\<forall>n status err w'.
      WaitForPendingUpdate n L c ctx interval indexID updateID w =
        Some (Returned status (Some err), w') \<longrightarrow>
      status = '''' \<and> (\<exists>e. ctx (now w') = Some e \<and> err = ContextErr e))"
proof -
  have a: "\<forall>e. ctx (now w) = Some e \<longrightarrow>
      WaitForPendingUpdate (Suc fuel) L c ctx interval indexID updateID w =
        Some (Returned '''' (Some (ContextErr e)), w)"
    by simp
  have b: "\<forall>n status err w'.
      WaitForPendingUpdate n L c ctx interval indexID updateID w =
        Some (Returned status (Some err), w') \<longrightarrow>
      status = '''' \<and> (\<exists>e. ctx (now w') = Some e \<and> err = ContextErr e)"
    using wait_error_only_from_context by blast
  show ?thesis using a b by blast
qed

text \<open>Claim C3, an instance: the deadline has passed at entry.\<close>

theorem C3_witness:
  "WithTimeout 0 0 (now (ex_world Update_zero)) = Some DeadlineExceeded \<and>
   WaitForPendingUpdate (Suc 4) ex_deps ex_client_down (WithTimeout 0 0) 50 ''movies''
     (Some \<lparr>AsyncID = 1\<rparr>) (ex_world Update_zero) =
     Some (Returned '''' (Some (ContextErr DeadlineExceeded)), ex_world Update_zero)"
proof -
  have h: "WithTimeout 0 0 (now (ex_world Update_zero)) = Some DeadlineExceeded"
    by (simp add: WithTimeout_def)
  from C3_cancellation[of "WithTimeout 0 0" "ex_world Update_zero" 4 ex_deps ex_client_down 50
      "''movies''" "Some \<lparr>AsyncID = 1\<rparr>"] h
  show ?thesis by blast
qed

text \<open>
  Claim C4. In an iteration where the context has not fired and the fetch of the update
  fails, with any error, the poller returns the status \<^verbatim>\<open>unknown\<close> and a nil error, in the
  world the one fetch left behind: the fetch is not retried, at most one request went
  out in this iteration.
\<close>

theorem C4_fetch_failure_unknown:
  assumes "ctx (now w) = None" and "updateID = Some uid"
    and "fastClientUpdates_Get L c indexID (AsyncID uid) w = (Inl err, w1)"
  shows "WaitForPendingUpdate (Suc fuel) L c ctx interval indexID updateID w =
           Some (Returned UpdateStatusUnknown None, w1) \<and>
         (sent w1 = sent w \<or> (\<exists>request. sent w1 = request # sent w))"
  using assms Get_sent[OF assms(3)] by simp

text \<open>Claim C4, an instance: the transport refuses the connection.\<close>

theorem C4_witness:
  "WithTimeout 0 5000 (now (ex_world Update_zero)) = None \<and>
   (\<exists>e. fst (fastClientUpdates_Get ex_deps ex_client_down ''movies'' (AsyncID \<lparr>AsyncID = 1\<rparr>)
               (ex_world Update_zero)) =
          Inl (Structured e) \<and> ErrCode e = ErrCodeRequestExecution) \<and>
   WaitForPendingUpdate (Suc 4) ex_deps ex_client_down (WithTimeout 0 5000) 50 ''movies''
     (Some \<lparr>AsyncID = 1\<rparr>) (ex_world Update_zero) =
     Some (Returned UpdateStatusUnknown None,
           snd (fastClientUpdates_Get ex_deps ex_client_down ''movies'' (AsyncID \<lparr>AsyncID = 1\<rparr>)
                  (ex_world Update_zero)))"
proof -
  let ?g = "fastClientUpdates_Get ex_deps ex_client_down ''movies'' (AsyncID \<lparr>AsyncID = 1\<rparr>)
              (ex_world Update_zero)"
  have h1: "WithTimeout 0 5000 (now (ex_world Update_zero)) = None"
    by (simp add: WithTimeout_def ex_world_def)
  have f: "\<exists>e. fst ?g = Inl (Structured e) \<and> ErrCode e = ErrCodeRequestExecution"
    using ex_down_get by simp
  then obtain e where e: "fst ?g = Inl (Structured e)" by blast
  then have h3: "?g = (Inl (Structured e), snd ?g)" by (metis prod.collapse)
  have h2: "Some \<lparr>AsyncID = 1\<rparr> = Some \<lparr>AsyncID = 1\<rparr>" by simp
  from C4_fetch_failure_unknown[where ctx = "WithTimeout 0 5000" and w = "ex_world Update_zero"
      and updateID = "Some \<lparr>AsyncID = 1\<rparr>" and uid = "\<lparr>AsyncID = 1\<rparr>"
      and fuel = 4 and interval = 50, OF h1 h2 h3]
  show ?thesis using h1 f by simp
qed

text \<open>
  Claim C9. With a positive poll interval and a context that reports an error at every
  time from \<open>d\<close> on, the poller returns: every number of iterations from
  \<open>(d - now) div interval + 2\<close> on gives the same result, which is a status and an
  error unless \<^verbatim>\<open>updateID\<close> is nil (the dereference then panics). It returns at the time of
  entry or before \<open>d + R + interval\<close>, where \<open>R\<close> is any bound on the duration of a round
  trip of the transport: an iteration that starts before \<open>d\<close> adds one round trip and
  one sleep at most, and the next one starts with the check of the context.
\<close>

theorem C9_termination:
  assumes "0 < interval" and "\<forall>t\<ge>d. ctx t \<noteq> None"
  shows "\<exists>r w'.
           (\<forall>m\<ge>(d - now w) div nat interval + 2.
              WaitForPendingUpdate m L c ctx interval indexID updateID w = Some (r, w')) \<and>
           (updateID \<noteq> None \<longrightarrow> r \<noteq> Panic) \<and>
           (\<forall>R. (\<forall>rq t n. fst (snd (httpClient c rq t n)) \<le> R) \<longrightarrow>
              now w' \<le> max (now w) (d + R + nat interval))"
proof -
  let ?i = "nat interval"
  let ?n = "(d - now w) div ?i + 1"
  have i: "0 < ?i" using assms(1) by simp
  have "d - now w < ?n * ?i"
    using i by (metis Suc_eq_plus1 dividend_less_div_times mult.commute mult_Suc)
  then have "d \<le> now w + ?n * ?i" by simp
  from wait_terminates[OF assms(2) this] obtain r w' where
    t: "\<forall>m\<ge>Suc ?n. WaitForPendingUpdate m L c ctx interval indexID updateID w = Some (r, w')"
    by blast
  then have one: "WaitForPendingUpdate (Suc ?n) L c ctx interval indexID updateID w = Some (r, w')"
    by blast
  have "\<forall>R. (\<forall>rq t n. fst (snd (httpClient c rq t n)) \<le> R) \<longrightarrow>
              now w' \<le> max (now w) (d + R + nat interval)"
    using wait_time_bound[OF assms(2) _ one] by blast
  moreover have "\<forall>m\<ge>(d - now w) div nat interval + 2.
              WaitForPendingUpdate m L c ctx interval indexID updateID w = Some (r, w')"
    using t by simp
  moreover have "updateID \<noteq> None \<longrightarrow> r \<noteq> Panic"
    using one wait_panic_only_nil by blast
  ultimately show ?thesis by blast
qed

text \<open>
  Claim C9, an instance: a deadline at 1500, an interval of 1000 and round trips of 1000,
  with a transport that refuses the connection.
\<close>

theorem C9_witness:
  "(0::int) < 1000 \<and> WithTimeout 0 1500 1500 = Some DeadlineExceeded \<and>
   (\<exists>r w'.
      WaitForPendingUpdate 3 ex_deps ex_client_down (WithTimeout 0 1500) 1000 ''movies''
        (Some \<lparr>AsyncID = 1\<rparr>) (ex_world Update_zero) = Some (r, w') \<and>
      r \<noteq> Panic \<and> now w' \<le> 1500 + 1000 + 1000)"
proof -
  let ?w = "ex_world Update_zero"
  have h1: "(0::int) < 1000" by simp
  have h2: "\<forall>t\<ge>1500. WithTimeout 0 1500 t \<noteq> None" by (simp add: WithTimeout_def)
  from C9_termination[OF h1 h2, of ?w ex_deps ex_client_down "''movies''" "Some \<lparr>AsyncID = 1\<rparr>"]
  obtain r w' where
    o: "\<forall>m\<ge>(1500 - now ?w) div nat 1000 + 2.
          WaitForPendingUpdate m ex_deps ex_client_down (WithTimeout 0 1500) 1000 ''movies''
            (Some \<lparr>AsyncID = 1\<rparr>) ?w = Some (r, w')"
       "\<forall>R. (\<forall>rq t n. fst (snd (httpClient ex_client_down rq t n)) \<le> R) \<longrightarrow>
            now w' \<le> max (now ?w) (1500 + R + nat 1000)"
       "Some \<lparr>AsyncID = 1\<rparr> \<noteq> None \<longrightarrow> r \<noteq> Panic"
    by blast
  have "(1500 - now ?w) div nat 1000 + 2 = 3" by (simp add: ex_world_def)
  then have a: "WaitForPendingUpdate 3 ex_deps ex_client_down (WithTimeout 0 1500) 1000 ''movies''
                 (Some \<lparr>AsyncID = 1\<rparr>) ?w = Some (r, w')"
    using o(1) by simp
  have "now w' \<le> max (now ?w) (1500 + 1000 + nat 1000)"
    using o(2) ex_client_down_round_trip by blast
  then have b: "now w' \<le> 1500 + 1000 + 1000" by (simp add: ex_world_def)
  have c: "WithTimeout 0 1500 1500 = Some DeadlineExceeded" by (simp add: WithTimeout_def)
  have p: "r \<noteq> Panic" using o(3) by simp
  show ?thesis using h1 a b c p by blast
qed

end
